theory Spec2Isabelle
  imports Complex_Main "HOL-Library.Sublist" "HOL-Library.Word"
begin

section \<open>Python text\<close>

text \<open>
  A Python \<open>str\<close> is a sequence of Unicode code points and \<open>len\<close> counts code points, so a
  string is a list of code points. \<open>lit\<close> turns an ASCII literal of the source into such a
  list.
\<close>

type_synonym pystr = "nat list"

definition lit :: "string \<Rightarrow> pystr" where
  "lit s = map of_char s"

text \<open>
  The characters \<open>str.strip()\<close> and \<open>str.split()\<close> treat as white space (those for which
  \<open>str.isspace\<close> holds): U+0009..U+000D, U+001C..U+0020, U+0085, U+00A0, U+1680,
  U+2000..U+200A, U+2028, U+2029, U+202F, U+205F, U+3000.
\<close>

definition is_space :: "nat \<Rightarrow> bool" where
  "is_space c =
     ((9 \<le> c \<and> c \<le> 13) \<or> (28 \<le> c \<and> c \<le> 32) \<or> c = 133 \<or> c = 160 \<or> c = 5760
      \<or> (8192 \<le> c \<and> c \<le> 8202) \<or> c = 8232 \<or> c = 8233 \<or> c = 8239 \<or> c = 8287
      \<or> c = 12288)"

text \<open>\<open>s.strip()\<close>: white space removed at both ends.\<close>

definition strip :: "pystr \<Rightarrow> pystr" where
  "strip s = rev (dropWhile is_space (rev (dropWhile is_space s)))"

text \<open>
  \<open>s.split()\<close> with no separator: the maximal runs of non-space characters, in order;
  \<open>cur\<close> is the current run, reversed.
\<close>

fun split_ws_from :: "pystr \<Rightarrow> pystr \<Rightarrow> pystr list" where
  "split_ws_from cur [] = (if cur = [] then [] else [rev cur])"
| "split_ws_from cur (c # cs) =
     (if is_space c
      then (if cur = [] then split_ws_from [] cs else rev cur # split_ws_from [] cs)
      else split_ws_from (c # cur) cs)"

definition split_ws :: "pystr \<Rightarrow> pystr list" where
  "split_ws s = split_ws_from [] s"

text \<open>
  \<open>s.split(sep)\<close> for a non-empty separator: the pieces between the occurrences of
  \<open>sep\<close>, found from the left without overlap; \<open>cur\<close> is the current piece, reversed.
  Both call sites pass a literal separator (\<open>'\n\n'\<close> and \<open>'.'\<close>).
\<close>

fun split_from :: "pystr \<Rightarrow> pystr \<Rightarrow> pystr \<Rightarrow> pystr list" where
  "split_from sep cur [] = [rev cur]"
| "split_from sep cur (c # cs) =
     (if prefix sep (c # cs)
      then rev cur # split_from sep [] (drop (length sep - 1) cs)
      else split_from sep (c # cur) cs)"

definition split :: "pystr \<Rightarrow> pystr \<Rightarrow> pystr list" where
  "split sep s = split_from sep [] s"

text \<open>\<open>str(n)\<close> for an integer: its decimal digits, with a minus sign when negative.\<close>

fun str_nat :: "nat \<Rightarrow> pystr" where
  "str_nat n = (if n < 10 then [48 + n] else str_nat (n div 10) @ [48 + n mod 10])"

declare str_nat.simps [simp del]

definition str_int :: "int \<Rightarrow> pystr" where
  "str_int i = (if i < 0 then 45 # str_nat (nat (- i)) else str_nat (nat i))"

section \<open>Exceptions and values\<close>

text \<open>
  An exception is its class and the text \<open>str(e)\<close> gives. Every handler of the source is
  \<open>except Exception\<close>, which catches all of these classes, or \<open>except UnicodeDecodeError\<close>.
  \<open>LibraryError\<close> stands for the classes the libraries raise (transport and API errors,
  JSON decode errors, PDF errors); all of them derive from \<open>Exception\<close>.
\<close>

datatype exc_class =
  Exception | UnicodeDecodeError | IndexError | TypeError | AttributeError | KeyError
  | LibraryError

datatype exn = Exn exc_class pystr

fun str_exn :: "exn \<Rightarrow> pystr" where
  "str_exn (Exn c m) = m"

text \<open>
  A computation that may raise is a value of \<open>exn + 'a\<close>. \<open>bind\<close> runs the next statement
  on the value of the previous one and passes an exception on; \<open>reraise msg\<close> is the
  handler \<open>except Exception as e: raise Exception(f"msg{str(e)}")\<close>.
\<close>

definition bind :: "exn + 'a \<Rightarrow> ('a \<Rightarrow> exn + 'b) \<Rightarrow> exn + 'b" where
  "bind m f = (case m of Inl e \<Rightarrow> Inl e | Inr x \<Rightarrow> f x)"

definition reraise :: "pystr \<Rightarrow> exn + 'a \<Rightarrow> exn + 'a" where
  "reraise msg m =
     (case m of Inl e \<Rightarrow> Inl (Exn Exception (msg @ str_exn e)) | Inr x \<Rightarrow> Inr x)"

text \<open>
  The values \<open>json.loads\<close> produces. A float is a rational, an infinity or a NaN (the
  parser accepts \<open>Infinity\<close> and \<open>NaN\<close>); a dict is its items in order, with distinct keys.
\<close>

datatype pyfloat = Finite rat | PosInf | NegInf | NaN

datatype json =
  JNull | JBool bool | JInt int | JFloat pyfloat | JStr pystr
  | JList "json list" | JDict "(pystr \<times> json) list"

fun type_name :: "json \<Rightarrow> pystr" where
  "type_name JNull = lit ''NoneType''"
| "type_name (JBool b) = lit ''bool''"
| "type_name (JInt i) = lit ''int''"
| "type_name (JFloat f) = lit ''float''"
| "type_name (JStr s) = lit ''str''"
| "type_name (JList xs) = lit ''list''"
| "type_name (JDict kvs) = lit ''dict''"

text \<open>\<open>f < n\<close> for a float \<open>f\<close> and an integer \<open>n\<close>; Python compares the two exactly.\<close>

fun float_less_int :: "pyfloat \<Rightarrow> int \<Rightarrow> bool" where
  "float_less_int (Finite q) n = (q < of_int n)"
| "float_less_int NegInf n = True"
| "float_less_int PosInf n = False"
| "float_less_int NaN n = False"

text \<open>
  \<open>xs[i]\<close> on a list: a negative index counts from the end, and an index outside
  \<open>-len(xs) .. len(xs) - 1\<close> raises \<open>IndexError\<close>.
\<close>

definition index :: "'a list \<Rightarrow> int \<Rightarrow> exn + 'a" where
  "index xs i =
     (if 0 \<le> i \<and> i < int (length xs) then Inr (xs ! nat i)
      else if i < 0 \<and> - int (length xs) \<le> i then Inr (xs ! nat (int (length xs) + i))
      else Inl (Exn IndexError (lit ''list index out of range'')))"

text \<open>\<open>xs[:n]\<close> for an integer \<open>n\<close>: a negative \<open>n\<close> leaves out the last \<open>-n\<close> elements.\<close>

definition slice_to :: "'a list \<Rightarrow> int \<Rightarrow> 'a list" where
  "slice_to xs n = (if n < 0 then take (nat (int (length xs) + n)) xs else take (nat n) xs)"

section \<open>The platform\<close>

text \<open>
  What the program calls and does not define: the codecs other than latin-1, Unicode
  lower-casing, the PDF library, the remote chat-completion service, the JSON library,
  Python's \<open>str()\<close> of values that are not strings, and the \<open>AttributeError\<close> the UI
  framework raises when a key that is not in \<open>st.session_state\<close> is read. A request to
  the remote service is the arguments of \<open>chat.completions.create\<close>; its reply is the list
  of the choices' message contents, each a string or \<open>None\<close>.
\<close>

type_synonym byte = "8 word"

record request =
  model :: pystr
  system_content :: pystr
  user_content :: pystr
  max_tokens :: "nat option"
  json_object :: bool
  temperature :: rat

record platform =
  decode_utf8 :: "byte list \<Rightarrow> pystr option"
  decode_utf16 :: "byte list \<Rightarrow> pystr option"
  decode_cp1252 :: "byte list \<Rightarrow> pystr option"
  str_lower :: "pystr \<Rightarrow> pystr"
  pdf_page_texts :: "byte list \<Rightarrow> exn + pystr option list"
  chat_completions_create :: "request \<Rightarrow> exn + pystr option list"
  json_loads :: "pystr \<Rightarrow> exn + json"
  json_dumps :: "pystr list \<Rightarrow> pystr"
  py_str :: "json \<Rightarrow> pystr"
  missing_key_error :: "string \<Rightarrow> exn"

section \<open>document\_processor.py\<close>

record uploaded_file =
  name :: pystr
  data :: "byte list"

datatype encoding = utf_8 | utf_16 | latin_1 | cp1252

text \<open>
  \<open>bytes.decode(encoding)\<close>; \<open>None\<close> is \<open>UnicodeDecodeError\<close>. Latin-1 maps each byte to
  the code point of the same number.
\<close>

fun decode :: "platform \<Rightarrow> encoding \<Rightarrow> byte list \<Rightarrow> pystr option" where
  "decode P utf_8 bs = decode_utf8 P bs"
| "decode P utf_16 bs = decode_utf16 P bs"
| "decode P latin_1 bs = Some (map unat bs)"
| "decode P cp1252 bs = decode_cp1252 P bs"

definition encodings :: "encoding list" where
  "encodings = [utf_8, utf_16, latin_1, cp1252]"

definition empty_file_error :: exn where
  "empty_file_error = Exn Exception (lit ''The text file appears to be empty.'')"

definition undecodable_error :: exn where
  \<open>undecodable_error =
     Exn Exception (lit ''Unable to decode text file. Please ensure it's a valid text file with proper encoding.'')\<close>

text \<open>
  The loop of \<open>_extract_txt_text\<close> over the encodings: a \<open>UnicodeDecodeError\<close> goes on to
  the next encoding, the exception for an empty text leaves the loop, as does the return.
\<close>

fun try_encodings :: "platform \<Rightarrow> encoding list \<Rightarrow> byte list \<Rightarrow> exn + pystr" where
  "try_encodings P [] bs = Inl undecodable_error"
| "try_encodings P (enc # encs) bs =
     (case decode P enc bs of
        None \<Rightarrow> try_encodings P encs bs
      | Some text_content \<Rightarrow>
          if strip text_content = [] then Inl empty_file_error
          else Inr (strip text_content))"

definition extract_txt_text :: "platform \<Rightarrow> uploaded_file \<Rightarrow> exn + pystr" where
  "extract_txt_text P f =
     reraise (lit ''TXT extraction failed: '') (try_encodings P encodings (data f))"

text \<open>
  The loop of \<open>_extract_pdf_text\<close> over the pages, numbered from \<open>page_num\<close>: a page whose
  text is \<open>None\<close> or empty adds nothing.
\<close>

fun pdf_text_content :: "nat \<Rightarrow> pystr option list \<Rightarrow> pystr" where
  "pdf_text_content page_num [] = []"
| "pdf_text_content page_num (page_text # pages) =
     (case page_text of
        None \<Rightarrow> []
      | Some t \<Rightarrow>
          if t = [] then []
          else lit ''\<newline>--- Page '' @ str_nat page_num @ lit '' ---\<newline>'' @ t @ lit ''\<newline>'')
     @ pdf_text_content (Suc page_num) pages"

definition extract_pdf_text :: "platform \<Rightarrow> uploaded_file \<Rightarrow> exn + pystr" where
  "extract_pdf_text P f =
     reraise (lit ''PDF extraction failed: '')
       (bind (pdf_page_texts P (data f)) (\<lambda>pages.
          let text_content = pdf_text_content 1 pages
          in if strip text_content = []
             then Inl (Exn Exception
               (lit ''No text content found in PDF. The file might be image-based or corrupted.''))
             else Inr (strip text_content)))"

definition extract_text :: "platform \<Rightarrow> uploaded_file \<Rightarrow> exn + pystr" where
  "extract_text P f =
     reraise (lit ''Failed to extract text from document: '')
       (bind (index (split (lit ''.'') (str_lower P (name f))) (- 1)) (\<lambda>file_extension.
          if file_extension = lit ''pdf'' then extract_pdf_text P f
          else if file_extension = lit ''txt'' then extract_txt_text P f
          else Inl (Exn Exception
            (lit ''Unsupported file format: '' @ file_extension
             @ lit ''. Please upload PDF or TXT files only.''))))"

text \<open>
  \<open>validate_document_content\<close>: \<open>not text\<close> holds for the empty string; then the length of
  the stripped text and the number of words are checked in turn.
\<close>

definition validate_document_content :: "pystr \<Rightarrow> bool" where
  "validate_document_content text =
     (if text = [] \<or> length (strip text) < 100 then False
      else let word_count = length (split_ws text)
           in if word_count < 50 then False else True)"

section \<open>ai\_assistant.py\<close>

text \<open>
  Every operation returns the requests it sent to the remote service, in order, together
  with its result.
\<close>

definition model_name :: pystr where
  "model_name = lit ''gpt-4o''"

text \<open>\<open>response.choices[0].message.content\<close>\<close>

definition first_content :: "pystr option list \<Rightarrow> exn + pystr option" where
  "first_content choices = index choices 0"

subsection \<open>generate\_summary\<close>

definition summary_prompt_1 :: pystr where
  \<open>summary_prompt_1 =
     lit ''\<newline>''
     @ lit ''            Please provide a concise summary of the following document in no more than 150 words.\<newline>''
     @ lit ''            Focus on the main themes, key arguments, and important findings.\<newline>''
     @ lit ''            Make the summary informative and well-structured.\<newline>''
     @ lit ''            \<newline>''
     @ lit ''            Document content:\<newline>''
     @ lit ''            ''\<close>

definition summary_prompt_2 :: pystr where
  \<open>summary_prompt_2 =
     lit ''  # Truncate for API limits\<newline>''
     @ lit ''            ''\<close>

definition summary_prompt :: "pystr \<Rightarrow> pystr" where
  "summary_prompt document_text =
     summary_prompt_1 @ take 8000 document_text @ summary_prompt_2"

definition summary_request :: "pystr \<Rightarrow> request" where
  "summary_request document_text =
     \<lparr>model = model_name,
      system_content = lit ''You are an expert document analyst. Create clear, concise summaries that capture the essence of academic and professional documents.'',
      user_content = summary_prompt document_text,
      max_tokens = Some 200,
      json_object = False,
      temperature = 3 / 10\<rparr>"

text \<open>\<open>content.strip()\<close>, where the content of a message may be \<open>None\<close>.\<close>

definition strip_content :: "pystr option \<Rightarrow> exn + pystr" where
  "strip_content content =
     (case content of
        None \<Rightarrow> Inl (Exn AttributeError
          ([39] @ lit ''NoneType'' @ [39] @ lit '' object has no attribute '' @ [39] @ lit ''strip'' @ [39]))
      | Some s \<Rightarrow> Inr (strip s))"

definition generate_summary :: "platform \<Rightarrow> pystr \<Rightarrow> request list \<times> (exn + pystr)" where
  "generate_summary P document_text =
     (let req = summary_request document_text
      in ([req],
          reraise (lit ''Failed to generate summary: '')
            (bind (chat_completions_create P req) (\<lambda>choices.
             bind (first_content choices) strip_content))))"

subsection \<open>answer\_question\<close>

text \<open>
  An entry of the conversation history, as app.py appends it: the question is the text the
  user typed, the answer and the citation are whatever values the parsed reply held.
\<close>

record qa_entry =
  qa_question :: pystr
  qa_answer :: json
  qa_citation :: json

text \<open>A value inside an f-string: a string stands for itself, anything else for its \<open>str()\<close>.\<close>

definition format_value :: "platform \<Rightarrow> json \<Rightarrow> pystr" where
  "format_value P v = (case v of JStr s \<Rightarrow> s | _ \<Rightarrow> py_str P v)"

definition render_qa :: "platform \<Rightarrow> qa_entry \<Rightarrow> pystr" where
  "render_qa P qa =
     lit ''Q: '' @ qa_question qa @ lit ''\<newline>A: '' @ format_value P (qa_answer qa)
     @ lit ''\<newline>\<newline>''"

text \<open>
  The context built from \<open>conversation_history\<close>, which is \<open>None\<close> by default: nothing for
  \<open>None\<close> and for the empty list, else the heading and the entries of
  \<open>conversation_history[-3:]\<close>.
\<close>

definition context_block :: "platform \<Rightarrow> qa_entry list option \<Rightarrow> pystr" where
  "context_block P conversation_history =
     (case conversation_history of
        None \<Rightarrow> []
      | Some h \<Rightarrow>
          if h = [] then []
          else lit ''Previous conversation:\<newline>''
               @ concat (map (render_qa P) (drop (length h - 3) h)))"

definition answer_prompt_1 :: pystr where
  \<open>answer_prompt_1 =
     lit ''\<newline>''
     @ lit ''            You are an expert document analyst. Answer the user's question based ONLY on the provided document content.\<newline>''
     @ lit ''            \<newline>''
     @ lit ''            Important guidelines:\<newline>''
     @ lit ''            1. Base your answer strictly on the document content provided\<newline>''
     @ lit ''            2. Do not add information from your general knowledge\<newline>''
     @ lit ''            3. If the answer cannot be found in the document, clearly state this\<newline>''
     @ lit ''            4. Provide specific references to support your answer\<newline>''
     @ lit ''            5. Be thorough but concise\<newline>''
     @ lit ''            \<newline>''
     @ lit ''            ''\<close>

definition answer_prompt_2 :: pystr where
  \<open>answer_prompt_2 =
     lit ''\<newline>''
     @ lit ''            \<newline>''
     @ lit ''            Document content:\<newline>''
     @ lit ''            ''\<close>

definition answer_prompt_3 :: pystr where
  \<open>answer_prompt_3 =
     lit ''\<newline>''
     @ lit ''            \<newline>''
     @ lit ''            User question: ''\<close>

definition answer_prompt_4 :: pystr where
  \<open>answer_prompt_4 =
     lit ''\<newline>''
     @ lit ''            \<newline>''
     @ lit ''            Please respond in JSON format with the following structure:\<newline>''
     @ lit ''            {\<newline>''
     @ lit ''                "answer": "Your detailed answer based on the document",\<newline>''
     @ lit ''                "citation": "Specific reference to the document section/paragraph that supports this answer",\<newline>''
     @ lit ''                "confidence": "high/medium/low based on how directly the document addresses the question"\<newline>''
     @ lit ''            }\<newline>''
     @ lit ''            ''\<close>

definition answer_prompt :: "platform \<Rightarrow> pystr \<Rightarrow> pystr \<Rightarrow> qa_entry list option \<Rightarrow> pystr" where
  "answer_prompt P question document_text conversation_history =
     answer_prompt_1 @ context_block P conversation_history @ answer_prompt_2 @ document_text
     @ answer_prompt_3 @ question @ answer_prompt_4"

definition answer_request :: "platform \<Rightarrow> pystr \<Rightarrow> pystr \<Rightarrow> qa_entry list option \<Rightarrow> request" where
  "answer_request P question document_text conversation_history =
     \<lparr>model = model_name,
      system_content = lit ''You are a precise document analyst. Always ground your responses in the provided text and include specific citations.'',
      user_content = answer_prompt P question document_text conversation_history,
      max_tokens = None,
      json_object = True,
      temperature = 2 / 10\<rparr>"

text \<open>\<open>json.loads(content)\<close>, where the content of a message may be \<open>None\<close>.\<close>

definition loads :: "platform \<Rightarrow> pystr option \<Rightarrow> exn + json" where
  "loads P content =
     (case content of
        None \<Rightarrow> Inl (Exn TypeError
          (lit ''the JSON object must be str, bytes or bytearray, not NoneType''))
      | Some s \<Rightarrow> json_loads P s)"

definition answer_question ::
  "platform \<Rightarrow> pystr \<Rightarrow> pystr \<Rightarrow> qa_entry list option \<Rightarrow> request list \<times> (exn + json)" where
  "answer_question P question document_text conversation_history =
     (let req = answer_request P question document_text conversation_history
      in ([req],
          reraise (lit ''Failed to answer question: '')
            (bind (chat_completions_create P req) (\<lambda>choices.
             bind (first_content choices) (loads P)))))"

subsection \<open>extract\_relevant\_passages\<close>

text \<open>
  \<open>[chunk.strip() for chunk in document_text.split('\n\n') if len(chunk.strip()) > 50]\<close>
\<close>

definition chunks :: "pystr \<Rightarrow> pystr list" where
  "chunks document_text =
     map strip
       (filter (\<lambda>chunk. 50 < length (strip chunk))
          (split (lit ''\<newline>\<newline>'') document_text))"

definition passages_prompt_1 :: pystr where
  \<open>passages_prompt_1 =
     lit ''\<newline>''
     @ lit ''            Given the following question and document chunks, identify the ''\<close>

definition passages_prompt_2 :: pystr where
  \<open>passages_prompt_2 =
     lit '' most relevant chunks that would help answer the question.\<newline>''
     @ lit ''            \<newline>''
     @ lit ''            Question: ''\<close>

definition passages_prompt_3 :: pystr where
  \<open>passages_prompt_3 =
     lit ''\<newline>''
     @ lit ''            \<newline>''
     @ lit ''            Document chunks:\<newline>''
     @ lit ''            ''\<close>

definition passages_prompt_4 :: pystr where
  \<open>passages_prompt_4 =
     lit ''  # Limit for API\<newline>''
     @ lit ''            \<newline>''
     @ lit ''            Please respond in JSON format:\<newline>''
     @ lit ''            {\<newline>''
     @ lit ''                "relevant_chunk_indices": [0, 5, 12]\<newline>''
     @ lit ''            }\<newline>''
     @ lit ''            \<newline>''
     @ lit ''            Return the indices of the most relevant chunks in order of relevance.\<newline>''
     @ lit ''            ''\<close>

definition passages_prompt :: "platform \<Rightarrow> pystr \<Rightarrow> pystr list \<Rightarrow> int \<Rightarrow> pystr" where
  "passages_prompt P question chs num_passages =
     passages_prompt_1 @ str_int num_passages @ passages_prompt_2 @ question
     @ passages_prompt_3 @ json_dumps P (take 20 chs) @ passages_prompt_4"

definition passages_request :: "platform \<Rightarrow> pystr \<Rightarrow> pystr list \<Rightarrow> int \<Rightarrow> request" where
  "passages_request P question chs num_passages =
     \<lparr>model = model_name,
      system_content = lit ''You are an expert at identifying relevant text passages for question answering.'',
      user_content = passages_prompt P question chs num_passages,
      max_tokens = None,
      json_object = True,
      temperature = 1 / 10\<rparr>"

text \<open>\<open>result.get(key, default)\<close>: only a dict has the method.\<close>

definition get :: "json \<Rightarrow> pystr \<Rightarrow> json \<Rightarrow> exn + json" where
  "get result key dflt =
     (case result of
        JDict kvs \<Rightarrow> Inr (case map_of kvs key of None \<Rightarrow> dflt | Some v \<Rightarrow> v)
      | _ \<Rightarrow> Inl (Exn AttributeError
          ([39] @ type_name result @ [39] @ lit '' object has no attribute '' @ [39] @ lit ''get'' @ [39])))"

text \<open>
  What \<open>for i in indices\<close> runs over: the elements of a list, the characters of a string,
  the keys of a dict; any other value is not iterable.
\<close>

definition iterate :: "json \<Rightarrow> exn + json list" where
  "iterate v =
     (case v of
        JList xs \<Rightarrow> Inr xs
      | JStr s \<Rightarrow> Inr (map (\<lambda>c. JStr [c]) s)
      | JDict kvs \<Rightarrow> Inr (map (\<lambda>kv. JStr (fst kv)) kvs)
      | _ \<Rightarrow> Inl (Exn TypeError ([39] @ type_name v @ [39] @ lit '' object is not iterable'')))"

text \<open>
  \<open>i < n\<close> for a value \<open>i\<close> of the reply and a length \<open>n\<close>: integers, booleans (which are
  the integers 1 and 0) and floats compare with an integer, nothing else does.
\<close>

definition less_len :: "json \<Rightarrow> nat \<Rightarrow> exn + bool" where
  "less_len i n =
     (case i of
        JInt k \<Rightarrow> Inr (k < int n)
      | JBool b \<Rightarrow> Inr ((if b then 1 else 0) < int n)
      | JFloat f \<Rightarrow> Inr (float_less_int f (int n))
      | _ \<Rightarrow> Inl (Exn TypeError
          ([39] @ lit ''<'' @ [39] @ lit '' not supported between instances of '' @ [39] @ type_name i
           @ [39] @ lit '' and '' @ [39] @ lit ''int'' @ [39])))"

text \<open>\<open>xs[i]\<close> for a value \<open>i\<close> of the reply: only integers and booleans index a list.\<close>

definition subscript_list :: "'a list \<Rightarrow> json \<Rightarrow> exn + 'a" where
  "subscript_list xs i =
     (case i of
        JInt k \<Rightarrow> index xs k
      | JBool b \<Rightarrow> index xs (if b then 1 else 0)
      | _ \<Rightarrow> Inl (Exn TypeError
          (lit ''list indices must be integers or slices, not '' @ type_name i)))"

text \<open>
  \<open>[chunks[i] for i in indices if i < len(chunks)]\<close>, element by element: the first
  exception ends the comprehension.
\<close>

fun select_chunks :: "pystr list \<Rightarrow> json list \<Rightarrow> exn + pystr list" where
  "select_chunks chs [] = Inr []"
| "select_chunks chs (i # indices) =
     bind (less_len i (length chs)) (\<lambda>keep.
       if keep
       then bind (subscript_list chs i) (\<lambda>c.
              bind (select_chunks chs indices) (\<lambda>cs. Inr (c # cs)))
       else select_chunks chs indices)"

text \<open>
  The handler of \<open>extract_relevant_passages\<close> catches every exception of the body and
  returns the first chunks instead.
\<close>

definition extract_relevant_passages ::
  "platform \<Rightarrow> pystr \<Rightarrow> pystr \<Rightarrow> int \<Rightarrow> request list \<times> (exn + pystr list)" where
  "extract_relevant_passages P question document_text num_passages =
     (let chs = chunks document_text
      in if int (length chs) \<le> num_passages then ([], Inr chs)
         else
           let req = passages_request P question chs num_passages
           in ([req],
               case bind (chat_completions_create P req) (\<lambda>choices.
                    bind (first_content choices) (\<lambda>content.
                    bind (loads P content) (\<lambda>result.
                    bind (get result (lit ''relevant_chunk_indices'') (JList [])) (\<lambda>indices.
                    bind (iterate indices) (select_chunks chs))))) of
                 Inl e \<Rightarrow> Inr (slice_to (chunks document_text) num_passages)
               | Inr passages \<Rightarrow> Inr passages))"

section \<open>utils.py and app.py\<close>

text \<open>
  \<open>st.session_state\<close> with the seven keys the program uses; a field is \<open>None\<close> when the
  key is absent. \<open>interaction_mode\<close> holds Python's \<open>None\<close> or a string,
  \<open>challenge_questions\<close> the list the model returned, \<open>challenge_answers\<close> a dict from a
  question's index to the user's answer and its evaluation.
\<close>

record session_state =
  document_content :: "pystr option"
  document_summary :: "pystr option"
  document_name :: "pystr option"
  interaction_mode :: "pystr option option"
  challenge_questions :: "json option"
  challenge_answers :: "(nat \<times> pystr \<times> json) list option"
  qa_history :: "qa_entry list option"

datatype key =
  Document_content | Document_summary | Document_name | Interaction_mode
  | Challenge_questions | Challenge_answers | Qa_history

text \<open>\<open>key in st.session_state\<close> and \<open>del st.session_state[key]\<close>\<close>

fun has :: "key \<Rightarrow> session_state \<Rightarrow> bool" where
  "has Document_content s = (document_content s \<noteq> None)"
| "has Document_summary s = (document_summary s \<noteq> None)"
| "has Document_name s = (document_name s \<noteq> None)"
| "has Interaction_mode s = (interaction_mode s \<noteq> None)"
| "has Challenge_questions s = (challenge_questions s \<noteq> None)"
| "has Challenge_answers s = (challenge_answers s \<noteq> None)"
| "has Qa_history s = (qa_history s \<noteq> None)"

fun del :: "key \<Rightarrow> session_state \<Rightarrow> session_state" where
  "del Document_content s = s\<lparr>document_content := None\<rparr>"
| "del Document_summary s = s\<lparr>document_summary := None\<rparr>"
| "del Document_name s = s\<lparr>document_name := None\<rparr>"
| "del Interaction_mode s = s\<lparr>interaction_mode := None\<rparr>"
| "del Challenge_questions s = s\<lparr>challenge_questions := None\<rparr>"
| "del Challenge_answers s = s\<lparr>challenge_answers := None\<rparr>"
| "del Qa_history s = s\<lparr>qa_history := None\<rparr>"

definition keys_to_clear :: "key list" where
  "keys_to_clear =
     [Document_content, Document_summary, Document_name, Interaction_mode,
      Challenge_questions, Challenge_answers, Qa_history]"

definition clear_session_state :: "session_state \<Rightarrow> session_state" where
  "clear_session_state s =
     fold (\<lambda>key s. if has key s then del key s else s) keys_to_clear s"

text \<open>The start of every run of the script (app.py, lines 15 to 28): absent keys get defaults.\<close>

definition or_default :: "'a option \<Rightarrow> 'a \<Rightarrow> 'a option" where
  "or_default v d = (case v of None \<Rightarrow> Some d | Some x \<Rightarrow> Some x)"

definition initialize :: "session_state \<Rightarrow> session_state" where
  "initialize s =
     \<lparr>document_content = or_default (document_content s) [],
      document_summary = or_default (document_summary s) [],
      document_name = or_default (document_name s) [],
      interaction_mode = or_default (interaction_mode s) None,
      challenge_questions = or_default (challenge_questions s) (JList []),
      challenge_answers = or_default (challenge_answers s) [],
      qa_history = or_default (qa_history s) []\<rparr>"

text \<open>
  A block of the script returns the session state, the messages it showed (\<open>st.error\<close>,
  \<open>st.success\<close>) and how control leaves it: on to the next statement, by \<open>st.rerun()\<close>
  (whose exception is not an \<open>Exception\<close>, so no handler of the script catches it), or by
  an exception nothing catches.
\<close>

datatype ui = Error pystr | Success pystr

datatype control = Next | Rerun | Uncaught exn

text \<open>Reading \<open>st.session_state.key\<close>\<close>

definition attr :: "platform \<Rightarrow> string \<Rightarrow> 'a option \<Rightarrow> exn + 'a" where
  "attr P key v = (case v of None \<Rightarrow> Inl (missing_key_error P key) | Some x \<Rightarrow> Inr x)"

text \<open>The \<open>try\<close> statement of the upload block (app.py, lines 55 to 68).\<close>

definition process_document ::
  "platform \<Rightarrow> uploaded_file \<Rightarrow> session_state \<Rightarrow> session_state \<times> ui list \<times> control" where
  "process_document P f s =
     (case extract_text P f of
        Inl e \<Rightarrow> (s, [Error (lit ''Error processing document: '' @ str_exn e)], Next)
      | Inr document_text \<Rightarrow>
          let s1 = s\<lparr>document_content := Some document_text\<rparr>
          in (case snd (generate_summary P document_text) of
                Inl e \<Rightarrow> (s1, [Error (lit ''Error processing document: '' @ str_exn e)], Next)
              | Inr summary \<Rightarrow>
                  (s1\<lparr>document_summary := Some summary\<rparr>,
                   [Success (lit ''Document processed successfully!'')], Rerun)))"

text \<open>
  The upload block (app.py, lines 48 to 68); \<open>uploaded\<close> is what \<open>st.file_uploader\<close>
  returned, \<open>None\<close> when no file is selected.
\<close>

definition upload_block ::
  "platform \<Rightarrow> uploaded_file option \<Rightarrow> session_state \<Rightarrow> session_state \<times> ui list \<times> control" where
  "upload_block P uploaded s =
     (case uploaded of
        None \<Rightarrow> (s, [], Next)
      | Some f \<Rightarrow>
          (case attr P ''document_name'' (document_name s) of
             Inl e \<Rightarrow> (s, [], Uncaught e)
           | Inr current \<Rightarrow>
               if name f \<noteq> current
               then process_document P f ((clear_session_state s)\<lparr>document_name := Some (name f)\<rparr>)
               else (s, [], Next)))"

text \<open>
  \<open>answer_data[key]\<close> for the two keys the script reads: a missing key of a dict is a
  \<open>KeyError\<close> whose text is the quoted key, and a value that is not a dict has no string
  subscripts.
\<close>

definition subscript :: "json \<Rightarrow> pystr \<Rightarrow> exn + json" where
  "subscript v key =
     (case v of
        JDict kvs \<Rightarrow>
          (case map_of kvs key of
             None \<Rightarrow> Inl (Exn KeyError ([39] @ key @ [39]))
           | Some x \<Rightarrow> Inr x)
      | JList xs \<Rightarrow> Inl (Exn TypeError (lit ''list indices must be integers or slices, not str''))
      | JStr s \<Rightarrow> Inl (Exn TypeError (lit ''string indices must be integers, not '' @ [39] @ lit ''str'' @ [39]))
      | _ \<Rightarrow> Inl (Exn TypeError ([39] @ type_name v @ [39] @ lit '' object is not subscriptable'')))"

text \<open>
  The Get Answer block (app.py, lines 132 to 150), which the script reaches in the
  \<open>ask_anything\<close> mode with a document loaded; \<open>clicked\<close> is what \<open>st.button\<close> returned,
  \<open>user_question\<close> the text of the input field.
\<close>

definition get_answer_block ::
  "platform \<Rightarrow> bool \<Rightarrow> pystr \<Rightarrow> session_state \<Rightarrow> session_state \<times> ui list \<times> control" where
  "get_answer_block P clicked user_question s =
     (if clicked \<and> user_question \<noteq> []
      then
        (case bind (attr P ''document_content'' (document_content s)) (\<lambda>content.
              bind (attr P ''qa_history'' (qa_history s)) (\<lambda>history.
              bind (snd (answer_question P user_question content (Some history))) (\<lambda>answer_data.
              bind (subscript answer_data (lit ''answer'')) (\<lambda>a.
              bind (subscript answer_data (lit ''citation'')) (\<lambda>c.
              Inr (s\<lparr>qa_history := Some (history @
                     [\<lparr>qa_question = user_question, qa_answer = a, qa_citation = c\<rparr>])\<rparr>)))))) of
           Inl e \<Rightarrow> (s, [Error (lit ''Error generating answer: '' @ str_exn e)], Next)
         | Inr s' \<Rightarrow> (s', [], Rerun))
      else (s, [], Next))"

section \<open>Concrete inputs\<close>

text \<open>
  A platform to run the program on ASCII inputs. Its codecs, lower-casing and PDF reader
  agree with Python's on the inputs used below: ASCII bytes decode as UTF-8 to themselves,
  the single byte \<open>0xFF\<close> decodes neither as UTF-8 nor as UTF-16, and lower-casing maps
  \<open>A..Z\<close> to \<open>a..z\<close>. The remote service and the JSON parser are given as functions.
\<close>

definition ascii_lower :: "pystr \<Rightarrow> pystr" where
  "ascii_lower s = map (\<lambda>c. if 65 \<le> c \<and> c \<le> 90 then c + 32 else c) s"

definition ascii_platform ::
  "(request \<Rightarrow> exn + pystr option list) \<Rightarrow> (pystr \<Rightarrow> exn + json) \<Rightarrow> platform" where
  "ascii_platform remote parse =
     \<lparr>decode_utf8 = (\<lambda>bs. if list_all (\<lambda>b. b < 128) bs then Some (map unat bs) else None),
      decode_utf16 = (\<lambda>bs. None),
      decode_cp1252 = (\<lambda>bs. None),
      str_lower = ascii_lower,
      pdf_page_texts = (\<lambda>bs. Inl (Exn LibraryError (lit ''No /Root object! - Is this really a PDF?''))),
      chat_completions_create = remote,
      json_loads = parse,
      json_dumps = (\<lambda>xs. lit ''[]''),
      py_str = type_name,
      missing_key_error = (\<lambda>k. Exn AttributeError (lit k))\<rparr>"

text \<open>A remote service that answers every request with one choice holding \<open>reply\<close>.\<close>

definition replies :: "pystr \<Rightarrow> request \<Rightarrow> exn + pystr option list" where
  "replies reply req = Inr [Some reply]"

text \<open>A JSON parser known on one text.\<close>

definition parses :: "pystr \<Rightarrow> json \<Rightarrow> pystr \<Rightarrow> exn + json" where
  "parses reply v s =
     (if s = reply then Inr v
      else Inl (Exn LibraryError (lit ''Expecting value: line 1 column 1 (char 0)'')))"

text \<open>
  A document of four paragraphs of 51 letters each (\<open>a\<close>, \<open>b\<close>, \<open>c\<close>, \<open>d\<close>), separated
  by blank lines.
\<close>

definition letters :: "nat \<Rightarrow> pystr" where
  "letters c = replicate 51 c"

definition four_paragraphs :: pystr where
  "four_paragraphs =
     letters 97 @ [10, 10] @ letters 98 @ [10, 10] @ letters 99 @ [10, 10] @ letters 100"

text \<open>
  Documents with paragraphs that are padded with white space, and with paragraphs that are
  left out: one of nine letters and one of exactly 50 letters \<open>e\<close>. \<open>mixed_document\<close> has six
  paragraphs, four of them of 51 letters; its third and fourth are separated by three line
  feeds, so that the fourth starts with a line feed. \<open>short_document\<close> has four paragraphs,
  two of them of 51 letters.
\<close>

definition mixed_document :: pystr where
  "mixed_document =
     lit ''  '' @ letters 97 @ lit '' '' @ [10, 10] @ lit ''too short'' @ [10, 10]
     @ letters 98 @ [10, 10, 10] @ letters 99 @ [10, 10] @ replicate 50 101 @ [10, 10]
     @ letters 100 @ [10]"

definition short_document :: pystr where
  "short_document =
     lit ''  '' @ letters 97 @ lit '' '' @ [10, 10] @ lit ''too short'' @ [10, 10]
     @ replicate 50 101 @ [10, 10] @ letters 98 @ [10]"

text \<open>The session state of a first run, before anything is uploaded.\<close>

definition no_keys :: session_state where
  "no_keys =
     \<lparr>document_content = None, document_summary = None, document_name = None,
      interaction_mode = None, challenge_questions = None, challenge_answers = None,
      qa_history = None\<rparr>"

text \<open>
  A platform whose remote service answers \<open>reply\<close>, a JSON text that parses to an object
  with the one key \<open>relevant_chunk_indices\<close> holding the list \<open>indices\<close>.
\<close>

definition ranking_platform :: "pystr \<Rightarrow> json list \<Rightarrow> platform" where
  "ranking_platform reply indices =
     ascii_platform (replies reply)
       (parses reply (JDict [(lit ''relevant_chunk_indices'', JList indices)]))"

text \<open>A remote service that is out of reach.\<close>

definition unreachable :: "request \<Rightarrow> exn + pystr option list" where
  "unreachable req = Inl (Exn LibraryError (lit ''Connection error.''))"

text \<open>A conversation of five questions and answers.\<close>

definition entry :: "string \<Rightarrow> string \<Rightarrow> qa_entry" where
  "entry q a = \<lparr>qa_question = lit q, qa_answer = JStr (lit a), qa_citation = JStr (lit ''para 2'')\<rparr>"

definition five_entries :: "qa_entry list" where
  "five_entries =
     [entry ''q1'' ''a1'', entry ''q2'' ''a2'', entry ''q3'' ''a3'', entry ''q4'' ''a4'',
      entry ''q5'' ''a5'']"

text \<open>A session with the document \<open>a.txt\<close> loaded and five questions answered.\<close>

definition loaded :: session_state where
  "loaded =
     \<lparr>document_content = Some (lit ''X is Y.''), document_summary = Some (lit ''About X.''),
      document_name = Some (lit ''a.txt''),
      interaction_mode = Some (Some (lit ''ask_anything'')),
      challenge_questions = Some (JList []), challenge_answers = Some [],
      qa_history = Some five_entries\<rparr>"

section \<open>Properties\<close>

subsection \<open>Content validation\<close>

text \<open>
  C9. For every text, \<open>validate_document_content\<close> returns \<open>True\<close> if and only if the
  stripped text has at least 100 characters and the text has at least 50 words.
\<close>

theorem validate_document_content_iff:
  "validate_document_content text \<longleftrightarrow>
     100 \<le> length (strip text) \<and> 50 \<le> length (split_ws text)"
  by (auto simp: validate_document_content_def strip_def Let_def)

lemma replicate_numeral: "replicate (numeral k) x = x # replicate (pred_numeral k) x"
  by (simp add: numeral_eq_Suc)

theorem validate_document_content_iff_witness:
  "validate_document_content (concat (replicate 50 (lit ''ab '')))
   \<and> \<not> validate_document_content (replicate 120 97)"
  unfolding validate_document_content_iff
  by (simp add: strip_def split_ws_def lit_def is_space_def replicate_numeral)

subsection \<open>Text files\<close>

lemma try_encodings_all:
  "try_encodings P encodings bs =
     (let text_content =
            (case decode_utf8 P bs of
               Some t \<Rightarrow> t
             | None \<Rightarrow> (case decode_utf16 P bs of Some t \<Rightarrow> t | None \<Rightarrow> map unat bs))
      in if strip text_content = [] then Inl empty_file_error else Inr (strip text_content))"
  by (simp add: encodings_def Let_def split: option.splits)

text \<open>
  C10. For every byte sequence and whatever the other codecs do, the text extracted from a
  \<open>.txt\<close> file is the stripped text of the first of UTF-8, UTF-16 and latin-1 that decodes
  the bytes, latin-1 always doing so; the extraction fails only when that text is empty
  after stripping, with the message for an empty file, and never with the message of the
  decode failure, which the loop over the encodings never reaches.
\<close>

theorem txt_decode_failure_unreachable:
  \<open>extract_txt_text P f =
     (let text_content =
            (case decode_utf8 P (data f) of
               Some t \<Rightarrow> t
             | None \<Rightarrow> (case decode_utf16 P (data f) of Some t \<Rightarrow> t | None \<Rightarrow> map unat (data f)))
      in if strip text_content = []
         then Inl (Exn Exception (lit ''TXT extraction failed: The text file appears to be empty.''))
         else Inr (strip text_content))
   \<and> try_encodings P encodings (data f) \<noteq> Inl undecodable_error
   \<and> extract_txt_text P f \<noteq>
       Inl (Exn Exception (lit ''TXT extraction failed: Unable to decode text file. Please ensure it's a valid text file with proper encoding.''))\<close>
proof -
  have msg: "lit ''TXT extraction failed: '' @ str_exn empty_file_error =
      lit ''TXT extraction failed: The text file appears to be empty.''"
    by (simp add: empty_file_error_def lit_def)
  have diff: \<open>lit ''TXT extraction failed: The text file appears to be empty.'' \<noteq>
      lit ''TXT extraction failed: Unable to decode text file. Please ensure it's a valid text file with proper encoding.''\<close>
    by (simp add: lit_def)
  have diff2: "empty_file_error \<noteq> undecodable_error"
    by (simp add: empty_file_error_def undecodable_error_def lit_def)
  show ?thesis
    using msg diff diff2
    by (simp add: extract_txt_text_def try_encodings_all reraise_def Let_def)
qed

theorem txt_decode_failure_unreachable_witness:
  "extract_txt_text (ascii_platform (replies []) (parses [] JNull)) \<lparr>name = lit ''a.txt'', data = [255]\<rparr>
     = Inr [255]"
  using txt_decode_failure_unreachable
    [of "ascii_platform (replies []) (parses [] JNull)" "\<lparr>name = lit ''a.txt'', data = [255]\<rparr>"]
  by (simp add: ascii_platform_def strip_def is_space_def Let_def)

subsection \<open>Relevant passages\<close>

lemma chunks_four_paragraphs:
  "chunks four_paragraphs = [letters 97, letters 98, letters 99, letters 100]"
  by (simp add: chunks_def four_paragraphs_def letters_def split_def strip_def is_space_def
      lit_def replicate_numeral)

lemma chunks_mixed_document:
  "chunks mixed_document = [letters 97, letters 98, letters 99, letters 100]"
  by (simp add: chunks_def mixed_document_def letters_def split_def strip_def is_space_def
      lit_def replicate_numeral)

lemma chunks_short_document: "chunks short_document = [letters 97, letters 98]"
  by (simp add: chunks_def short_document_def letters_def split_def strip_def is_space_def
      lit_def replicate_numeral)

text \<open>
  The chunks of the function are the paragraphs between blank lines (the pieces of the
  text between the occurrences of two line feeds), stripped, of which those longer than 50
  characters are kept, in the order of the document.
\<close>

lemma chunks_stripped_paragraphs:
  "chunks document_text
     = filter (\<lambda>c. 50 < length c) (map strip (split (lit ''\<newline>\<newline>'') document_text))"
  by (simp add: chunks_def filter_map comp_def)

text \<open>
  C5. Let \<open>chs\<close> be the paragraphs of the document between blank lines, stripped, of which
  those longer than 50 characters are kept, in the order of the document. When there are
  at most \<open>num_passages\<close> of them, \<open>extract_relevant_passages\<close> returns exactly \<open>chs\<close> and
  sends no request to the remote service.
\<close>

theorem few_chunks_returned_unranked:
  assumes "chs = filter (\<lambda>c. 50 < length c)
                   (map strip (split (lit ''\<newline>\<newline>'') document_text))"
    and "int (length chs) \<le> num_passages"
  shows "extract_relevant_passages P question document_text num_passages = ([], Inr chs)"
  using assms by (simp add: extract_relevant_passages_def Let_def chunks_stripped_paragraphs)

theorem few_chunks_returned_unranked_witness:
  "[letters 97, letters 98]
     = filter (\<lambda>c. 50 < length c) (map strip (split (lit ''\<newline>\<newline>'') short_document))
   \<and> int (length [letters 97, letters 98]) \<le> 2
   \<and> extract_relevant_passages (ascii_platform unreachable (parses [] JNull)) (lit ''q'')
        short_document 2 = ([], Inr [letters 97, letters 98])"
proof -
  have c: "[letters 97, letters 98]
      = filter (\<lambda>c. 50 < length c) (map strip (split (lit ''\<newline>\<newline>'') short_document))"
    using chunks_short_document by (simp add: chunks_stripped_paragraphs)
  have h: "int (length [letters 97, letters 98]) \<le> 2"
    by simp
  show ?thesis
    using c h few_chunks_returned_unranked [OF c h] by simp
qed

lemma index_in_set: "index xs i = Inr x \<Longrightarrow> x \<in> set xs"
  by (auto simp: index_def split: if_splits)

lemma subscript_list_in_set: "subscript_list xs i = Inr x \<Longrightarrow> x \<in> set xs"
  by (auto simp: subscript_list_def split: json.splits dest: index_in_set)

lemma select_chunks_subset:
  "select_chunks chs indices = Inr passages \<Longrightarrow> set passages \<subseteq> set chs"
proof (induction indices arbitrary: passages)
  case Nil
  then show ?case by simp
next
  case (Cons i indices)
  then show ?case
    by (auto simp: bind_def split: sum.splits if_splits dest: subscript_list_in_set)
qed

text \<open>
  On indices that are natural numbers the comprehension keeps the chunks at the indices
  below the number of chunks, in the order of the reply, and drops the others.
\<close>

lemma select_chunks_natural_indices:
  "select_chunks chs (map (\<lambda>k. JInt (int k)) ks)
     = Inr (map (\<lambda>k. chs ! k) (filter (\<lambda>k. k < length chs) ks))"
  by (induction ks) (simp_all add: bind_def less_len_def subscript_list_def index_def)

text \<open>
  C3, as the code has it. Let \<open>chs\<close> be the paragraphs of the document between blank lines,
  stripped, of which those longer than 50 characters are kept, in the order of the document,
  and let there be more than three of them. Whatever the remote service and the JSON parser
  do, \<open>extract_relevant_passages\<close> with \<open>num_passages = 3\<close> raises nothing, sends one
  request, and returns strings that are all among \<open>chs\<close>. When the remote call raises, and
  when the reply is not JSON, it returns exactly the first three of \<open>chs\<close>. When the reply
  is an object whose \<open>relevant_chunk_indices\<close> is a list of natural numbers, it returns
  exactly the chunks at those of the indices that are below the number of chunks, in the
  order of the reply: as many strings as there are such indices, which need not be three.
\<close>

theorem passages_are_chunks:
  assumes chs: "chs = filter (\<lambda>c. 50 < length c)
                   (map strip (split (lit ''\<newline>\<newline>'') document_text))"
    and len: "3 < length chs"
  shows
    "(\<exists>passages. snd (extract_relevant_passages P question document_text 3) = Inr passages
        \<and> set passages \<subseteq> set chs)
     \<and> fst (extract_relevant_passages P question document_text 3)
         = [passages_request P question chs 3]
     \<and> (\<forall>e. chat_completions_create P (passages_request P question chs 3) = Inl e
           \<longrightarrow> snd (extract_relevant_passages P question document_text 3)
               = Inr (take 3 chs))
     \<and> (\<forall>content others e.
           chat_completions_create P (passages_request P question chs 3)
             = Inr (Some content # others)
           \<and> json_loads P content = Inl e
           \<longrightarrow> snd (extract_relevant_passages P question document_text 3)
               = Inr (take 3 chs))
     \<and> (\<forall>content others kvs ks.
           chat_completions_create P (passages_request P question chs 3)
             = Inr (Some content # others)
           \<and> json_loads P content = Inr (JDict kvs)
           \<and> map_of kvs (lit ''relevant_chunk_indices'') = Some (JList (map (\<lambda>k. JInt (int k)) ks))
           \<longrightarrow> snd (extract_relevant_passages P question document_text 3)
               = Inr (map (\<lambda>k. chs ! k) (filter (\<lambda>k. k < length chs) ks)))
     \<and> length (take 3 chs) = 3"
proof -
  have eq: "chunks document_text = chs"
    using chs by (simp add: chunks_stripped_paragraphs)
  let ?body = "bind (chat_completions_create P (passages_request P question chs 3)) (\<lambda>choices.
                    bind (first_content choices) (\<lambda>content.
                    bind (loads P content) (\<lambda>result.
                    bind (get result (lit ''relevant_chunk_indices'') (JList [])) (\<lambda>indices.
                    bind (iterate indices) (select_chunks chs)))))"
  have sl: "slice_to chs 3 = take 3 chs"
    by (simp add: slice_to_def)
  have both: "extract_relevant_passages P question document_text 3
      = ([passages_request P question chs 3],
         case ?body of Inl e \<Rightarrow> Inr (take 3 chs) | Inr passages \<Rightarrow> Inr passages)"
    using len unfolding extract_relevant_passages_def Let_def eq sl by simp
  have res: "snd (extract_relevant_passages P question document_text 3)
      = (case ?body of Inl e \<Rightarrow> Inr (take 3 chs) | Inr passages \<Rightarrow> Inr passages)"
    by (simp add: both)
  have req: "fst (extract_relevant_passages P question document_text 3)
      = [passages_request P question chs 3]"
    by (simp add: both)
  have sub: "set passages \<subseteq> set chs" if "?body = Inr passages" for passages
    using that by (auto simp: bind_def split: sum.splits dest: select_chunks_subset)
  have a: "\<exists>passages. snd (extract_relevant_passages P question document_text 3) = Inr passages
        \<and> set passages \<subseteq> set chs"
  proof (cases ?body)
    case (Inl e)
    then show ?thesis using res by (auto dest: in_set_takeD)
  next
    case (Inr passages)
    then show ?thesis using res sub by auto
  qed
  have b: "snd (extract_relevant_passages P question document_text 3) = Inr (take 3 chs)"
    if "chat_completions_create P (passages_request P question chs 3) = Inl e" for e
    using that res by (simp add: bind_def)
  have c: "snd (extract_relevant_passages P question document_text 3) = Inr (take 3 chs)"
    if "chat_completions_create P (passages_request P question chs 3) = Inr (Some content # others)"
      and "json_loads P content = Inl e" for content others e
    using that res by (simp add: bind_def first_content_def index_def loads_def)
  have d: "snd (extract_relevant_passages P question document_text 3)
      = Inr (map (\<lambda>k. chs ! k) (filter (\<lambda>k. k < length chs) ks))"
    if "chat_completions_create P (passages_request P question chs 3) = Inr (Some content # others)"
      and "json_loads P content = Inr (JDict kvs)"
      and "map_of kvs (lit ''relevant_chunk_indices'') = Some (JList (map (\<lambda>k. JInt (int k)) ks))"
    for content others kvs ks
    using that res
    by (simp add: bind_def first_content_def index_def loads_def get_def iterate_def
        select_chunks_natural_indices)
  show ?thesis using a b c d len req by auto
qed

theorem passages_are_chunks_witness:
  \<open>[letters 97, letters 98, letters 99, letters 100]
     = filter (\<lambda>c. 50 < length c) (map strip (split (lit ''\<newline>\<newline>'') mixed_document))
   \<and> 3 < length [letters 97, letters 98, letters 99, letters 100]
   \<and> snd (extract_relevant_passages (ascii_platform unreachable (parses [] JNull))
            (lit ''q'') mixed_document 3) = Inr [letters 97, letters 98, letters 99]
   \<and> snd (extract_relevant_passages
            (ascii_platform (replies (lit ''I cannot rank these.'')) (parses [] JNull))
            (lit ''q'') mixed_document 3) = Inr [letters 97, letters 98, letters 99]
   \<and> snd (extract_relevant_passages
            (ranking_platform (lit ''{"relevant_chunk_indices": [2, 7, 0]}'')
               [JInt 2, JInt 7, JInt 0])
            (lit ''q'') mixed_document 3) = Inr [letters 99, letters 97]\<close>
proof -
  let ?chs = "[letters 97, letters 98, letters 99, letters 100]"
  let ?U = "ascii_platform unreachable (parses [] JNull)"
  let ?J = "ascii_platform (replies (lit ''I cannot rank these.'')) (parses [] JNull)"
  let ?R = \<open>ranking_platform (lit ''{"relevant_chunk_indices": [2, 7, 0]}'')
              [JInt 2, JInt 7, JInt 0]\<close>
  have c: "?chs
      = filter (\<lambda>c. 50 < length c) (map strip (split (lit ''\<newline>\<newline>'') mixed_document))"
    using chunks_mixed_document by (simp add: chunks_stripped_paragraphs)
  have h: "3 < length ?chs"
    by simp
  have u: "chat_completions_create ?U req = Inl (Exn LibraryError (lit ''Connection error.''))"
    for req
    by (simp add: ascii_platform_def unreachable_def)
  have j: "chat_completions_create ?J req = Inr [Some (lit ''I cannot rank these.'')]
      \<and> json_loads ?J (lit ''I cannot rank these.'')
          = Inl (Exn LibraryError (lit ''Expecting value: line 1 column 1 (char 0)''))" for req
    by (simp add: ascii_platform_def replies_def parses_def lit_def)
  have r: \<open>chat_completions_create ?R req = Inr [Some (lit ''{"relevant_chunk_indices": [2, 7, 0]}'')]
      \<and> json_loads ?R (lit ''{"relevant_chunk_indices": [2, 7, 0]}'')
          = Inr (JDict [(lit ''relevant_chunk_indices'', JList (map (\<lambda>k. JInt (int k)) [2, 7, 0]))])\<close>
    for req
    by (simp add: ranking_platform_def ascii_platform_def replies_def parses_def)
  have 1: "snd (extract_relevant_passages ?U (lit ''q'') mixed_document 3) = Inr (take 3 ?chs)"
    using passages_are_chunks [OF c h, of ?U "lit ''q''"] u by blast
  have 2: "snd (extract_relevant_passages ?J (lit ''q'') mixed_document 3) = Inr (take 3 ?chs)"
    using passages_are_chunks [OF c h, of ?J "lit ''q''"] j by blast
  have 3: "snd (extract_relevant_passages ?R (lit ''q'') mixed_document 3)
      = Inr (map (\<lambda>k. ?chs ! k) (filter (\<lambda>k. k < length ?chs) [2, 7, 0]))"
  proof -
    have m: "map_of [(lit ''relevant_chunk_indices'', JList (map (\<lambda>k. JInt (int k)) [2, 7, 0]))]
          (lit ''relevant_chunk_indices'')
        = Some (JList (map (\<lambda>k. JInt (int k)) [2, 7, 0]))"
      by simp
    show ?thesis
      using passages_are_chunks [OF c h, of ?R "lit ''q''"] r m by blast
  qed
  have 4: "snd (extract_relevant_passages ?U (lit ''q'') mixed_document 3)
        = Inr [letters 97, letters 98, letters 99]
      \<and> snd (extract_relevant_passages ?J (lit ''q'') mixed_document 3)
        = Inr [letters 97, letters 98, letters 99]
      \<and> snd (extract_relevant_passages ?R (lit ''q'') mixed_document 3)
        = Inr [letters 99, letters 97]"
    using 1 2 3 by simp
  show ?thesis
    using c h 4 by (intro conjI) simp_all
qed

text \<open>
  Fewer than three strings can be returned: with four chunks and a reply that ranks the
  index 0 alone, the one chunk at index 0 is returned.
\<close>

theorem fewer_passages_than_requested:
  \<open>chunks four_paragraphs = [letters 97, letters 98, letters 99, letters 100]
   \<and> snd (extract_relevant_passages
            (ranking_platform (lit ''{"relevant_chunk_indices": [0]}'') [JInt 0])
            (lit ''q'') four_paragraphs 3) = Inr [letters 97]\<close>
  by (simp add: chunks_four_paragraphs extract_relevant_passages_def Let_def
      ranking_platform_def ascii_platform_def replies_def parses_def first_content_def
      index_def loads_def get_def iterate_def less_len_def subscript_list_def bind_def)

text \<open>
  C4 at the indices 0 and -5 of four chunks. Dropping the index that is out of range
  would return the chunk at index 0 alone. The index -5 passes the test
  \<open>i < len(chunks)\<close>, so that \<open>chunks[-5]\<close> raises \<open>IndexError\<close>, and the handler
  returns the first three chunks instead.
\<close>

theorem negative_index_not_dropped:
  \<open>chunks four_paragraphs = [letters 97, letters 98, letters 99, letters 100]
   \<and> snd (extract_relevant_passages
            (ranking_platform (lit ''{"relevant_chunk_indices": [0, -5]}'') [JInt 0, JInt (- 5)])
            (lit ''q'') four_paragraphs 3) = Inr [letters 97, letters 98, letters 99]\<close>
  by (simp add: chunks_four_paragraphs extract_relevant_passages_def Let_def
      ranking_platform_def ascii_platform_def replies_def parses_def first_content_def
      index_def loads_def get_def iterate_def less_len_def subscript_list_def bind_def
      slice_to_def)

subsection \<open>The context of a question\<close>

text \<open>
  C7. When the conversation history has at least three entries, the request sent for a
  question carries, between the guidelines and the document, the heading followed by the
  last three entries, each rendered by \<open>render_qa\<close> as \<open>Q: ...\<close> and \<open>A: ...\<close>; the
  earlier entries have no influence: the operation sends the same request and returns the
  same result as with the last three entries alone.
\<close>

theorem answer_context_last_three:
  "3 \<le> length h \<Longrightarrow>
     length (drop (length h - 3) h) = 3
     \<and> fst (answer_question P q document_text (Some h))
         = [answer_request P q document_text (Some h)]
     \<and> user_content (answer_request P q document_text (Some h))
         = answer_prompt_1
           @ lit ''Previous conversation:\<newline>''
           @ concat (map (render_qa P) (drop (length h - 3) h))
           @ answer_prompt_2 @ document_text @ answer_prompt_3 @ q @ answer_prompt_4
     \<and> answer_question P q document_text (Some h)
         = answer_question P q document_text (Some (drop (length h - 3) h))"
proof -
  assume h: "3 \<le> length h"
  then have ne: "h \<noteq> []" "drop (length h - 3) h \<noteq> []" by auto
  have ctx: "context_block P (Some h) =
      lit ''Previous conversation:\<newline>'' @ concat (map (render_qa P) (drop (length h - 3) h))"
    using ne by (simp add: context_block_def)
  have ctx3: "context_block P (Some (drop (length h - 3) h)) =
      lit ''Previous conversation:\<newline>'' @ concat (map (render_qa P) (drop (length h - 3) h))"
    using ne h by (simp add: context_block_def)
  show ?thesis
    using h by (simp add: answer_question_def Let_def answer_request_def answer_prompt_def ctx ctx3)
qed

theorem answer_context_last_three_witness:
  "3 \<le> length five_entries
   \<and> user_content (answer_request (ascii_platform unreachable (parses [] JNull))
        (lit ''What is X?'') (lit ''X is Y.'') (Some five_entries))
       = answer_prompt_1
         @ lit ''Previous conversation:\<newline>Q: q3\<newline>A: a3\<newline>\<newline>Q: q4\<newline>A: a4\<newline>\<newline>Q: q5\<newline>A: a5\<newline>\<newline>''
         @ answer_prompt_2 @ lit ''X is Y.'' @ answer_prompt_3 @ lit ''What is X?''
         @ answer_prompt_4"
proof -
  have h: "3 \<le> length five_entries"
    by (simp add: five_entries_def)
  have r: "concat (map (render_qa (ascii_platform unreachable (parses [] JNull)))
             (drop (length five_entries - 3) five_entries))
      = lit ''Q: q3\<newline>A: a3\<newline>\<newline>Q: q4\<newline>A: a4\<newline>\<newline>Q: q5\<newline>A: a5\<newline>\<newline>''"
    by (simp add: five_entries_def entry_def render_qa_def format_value_def lit_def)
  show ?thesis
    using h answer_context_last_three [OF h, of "ascii_platform unreachable (parses [] JNull)"
        "lit ''What is X?''" "lit ''X is Y.''"]
    by (simp add: r lit_def)
qed

subsection \<open>Summaries\<close>

text \<open>
  C8, as the code has it. \<open>generate_summary\<close> sends one request, whose prompt holds the
  first 8000 characters of the document and nothing else of it. It fails, with a message
  that starts \<open>Failed to generate summary: \<close>, when the remote call raises, when the reply
  has no choice and when the content of the first choice is \<open>None\<close>; otherwise it returns
  that content stripped, which is the empty string when the content is empty or white
  space only.
\<close>

theorem summary_outcomes:
  "fst (generate_summary P document_text) = [summary_request document_text]
   \<and> user_content (summary_request document_text)
       = summary_prompt_1 @ take 8000 document_text @ summary_prompt_2
   \<and> generate_summary P document_text = generate_summary P (take 8000 document_text)
   \<and> snd (generate_summary P document_text)
       = (case chat_completions_create P (summary_request document_text) of
            Inl e \<Rightarrow> Inl (Exn Exception (lit ''Failed to generate summary: '' @ str_exn e))
          | Inr [] \<Rightarrow>
              Inl (Exn Exception (lit ''Failed to generate summary: list index out of range''))
          | Inr (None # others) \<Rightarrow>
              Inl (Exn Exception
                (lit ''Failed to generate summary: '' @ [39] @ lit ''NoneType'' @ [39]
                 @ lit '' object has no attribute '' @ [39] @ lit ''strip'' @ [39]))
          | Inr (Some content # others) \<Rightarrow> Inr (strip content))"
proof -
  have same: "summary_request (take 8000 document_text) = summary_request document_text"
    by (simp add: summary_request_def summary_prompt_def)
  have msg: "lit ''Failed to generate summary: '' @ lit ''list index out of range''
      = lit ''Failed to generate summary: list index out of range''"
    by (simp add: lit_def)
  show ?thesis
    using msg
    by (simp add: generate_summary_def Let_def same summary_request_def summary_prompt_def
        first_content_def index_def strip_content_def bind_def reraise_def
        split: sum.splits list.splits option.splits)
qed

text \<open>
  A summary can be empty: when the content of the reply is the empty string, the
  operation returns the empty string and does not fail.
\<close>

theorem summary_may_be_empty:
  "snd (generate_summary (ascii_platform (replies []) (parses [] JNull))
          (lit ''Some document text.'')) = Inr []"
  by (simp add: generate_summary_def Let_def ascii_platform_def replies_def first_content_def
      index_def strip_content_def strip_def bind_def reraise_def)

subsection \<open>Uploading a document\<close>

lemma clear_session_state_no_keys: "clear_session_state s = no_keys"
  by (cases s) (simp add: clear_session_state_def keys_to_clear_def no_keys_def)

lemma extract_empty_txt:
  "extract_text (ascii_platform r p) \<lparr>name = lit ''a.txt'', data = []\<rparr>
     = Inl (Exn Exception (lit ''Failed to extract text from document: TXT extraction failed: The text file appears to be empty.''))"
  by (simp add: extract_text_def extract_txt_text_def encodings_def empty_file_error_def
      ascii_platform_def ascii_lower_def split_def index_def strip_def bind_def reraise_def
      lit_def)

lemma extract_hi_txt:
  "extract_text (ascii_platform r p) \<lparr>name = lit ''a.txt'', data = [104, 105]\<rparr>
     = Inr (lit ''hi'')"
  by (simp add: extract_text_def extract_txt_text_def encodings_def empty_file_error_def
      ascii_platform_def ascii_lower_def split_def index_def strip_def is_space_def bind_def
      reraise_def lit_def)

text \<open>
  C6. Uploading a file whose name is the current document's name changes nothing in the
  session, so the history, the challenge questions and answers and the summary stay as
  they are. Uploading a file with another name deletes all four (and the other keys)
  before the new file is processed; processing then sets nothing but the content and the
  summary, so the history and the challenge state are still absent when the block ends.
\<close>

theorem upload_same_name_keeps_other_name_clears:
  "(document_name s = Some (name f) \<longrightarrow> upload_block P (Some f) s = (s, [], Next))
   \<and> (document_name s = Some current \<and> current \<noteq> name f \<longrightarrow>
        qa_history (clear_session_state s) = None
        \<and> challenge_questions (clear_session_state s) = None
        \<and> challenge_answers (clear_session_state s) = None
        \<and> document_summary (clear_session_state s) = None
        \<and> upload_block P (Some f) s
            = process_document P f ((clear_session_state s)\<lparr>document_name := Some (name f)\<rparr>)
        \<and> qa_history (fst (upload_block P (Some f) s)) = None
        \<and> challenge_questions (fst (upload_block P (Some f) s)) = None
        \<and> challenge_answers (fst (upload_block P (Some f) s)) = None)"
proof -
  have same: "upload_block P (Some f) s = (s, [], Next)" if "document_name s = Some (name f)"
    using that by (simp add: upload_block_def attr_def)
  have other: "upload_block P (Some f) s
      = process_document P f ((clear_session_state s)\<lparr>document_name := Some (name f)\<rparr>)"
    if "document_name s = Some current" "current \<noteq> name f"
    using that by (auto simp: upload_block_def attr_def)
  have kept: "qa_history (fst (process_document P f t)) = qa_history t
      \<and> challenge_questions (fst (process_document P f t)) = challenge_questions t
      \<and> challenge_answers (fst (process_document P f t)) = challenge_answers t" for t
    by (simp add: process_document_def Let_def split: sum.splits)
  show ?thesis
    using same other kept
    by (simp add: clear_session_state_no_keys no_keys_def)
qed

theorem upload_same_name_keeps_other_name_clears_witness:
  "qa_history loaded = Some five_entries
   \<and> upload_block (ascii_platform unreachable (parses [] JNull))
        (Some \<lparr>name = lit ''a.txt'', data = [104, 105]\<rparr>) loaded = (loaded, [], Next)
   \<and> qa_history (fst (upload_block (ascii_platform unreachable (parses [] JNull))
        (Some \<lparr>name = lit ''b.txt'', data = [104, 105]\<rparr>) loaded)) = None"
proof -
  let ?P = "ascii_platform unreachable (parses [] JNull)"
  let ?a = "\<lparr>name = lit ''a.txt'', data = [104, 105 :: byte]\<rparr>"
  let ?b = "\<lparr>name = lit ''b.txt'', data = [104, 105 :: byte]\<rparr>"
  have same: "document_name loaded = Some (name ?a)"
    by (simp add: loaded_def)
  have other: "document_name loaded = Some (lit ''a.txt'') \<and> lit ''a.txt'' \<noteq> name ?b"
    by (simp add: loaded_def lit_def)
  have kept: "upload_block ?P (Some ?a) loaded = (loaded, [], Next)"
    by (rule upload_same_name_keeps_other_name_clears [THEN conjunct1, rule_format, OF same])
  have cleared: "qa_history (fst (upload_block ?P (Some ?b) loaded)) = None"
    using upload_same_name_keeps_other_name_clears
      [where P = "?P", THEN conjunct2, rule_format, OF other]
    by (elim conjE)
  show ?thesis
    using kept cleared by (simp add: loaded_def)
qed

text \<open>
  C1, as the code has it. When a file with a new name is uploaded and text extraction
  fails, the session is left with the name of the uploaded file and with no content and no
  summary; when extraction succeeds and summarization fails, it is left with the name of
  the file and the extracted content, and with no summary. In both cases the error is
  shown and all other keys are absent.
\<close>

theorem failed_upload_state:
  "document_name s = Some current \<Longrightarrow> current \<noteq> name f \<Longrightarrow>
     (\<forall>e. extract_text P f = Inl e \<longrightarrow>
        upload_block P (Some f) s
          = (no_keys\<lparr>document_name := Some (name f)\<rparr>,
             [Error (lit ''Error processing document: '' @ str_exn e)], Next))
     \<and> (\<forall>document_text e.
          extract_text P f = Inr document_text
          \<and> snd (generate_summary P document_text) = Inl e \<longrightarrow>
          upload_block P (Some f) s
            = (no_keys\<lparr>document_name := Some (name f), document_content := Some document_text\<rparr>,
               [Error (lit ''Error processing document: '' @ str_exn e)], Next))"
  by (auto simp: upload_block_def attr_def process_document_def Let_def
      clear_session_state_no_keys)

lemma extract_empty_txt2:
  "extract_text (ascii_platform r p) \<lparr>name = lit ''notes.txt'', data = []\<rparr>
     = Inl (Exn Exception (lit ''Failed to extract text from document: TXT extraction failed: The text file appears to be empty.''))"
  by (simp add: extract_text_def extract_txt_text_def encodings_def empty_file_error_def
      ascii_platform_def ascii_lower_def split_def index_def strip_def bind_def reraise_def
      lit_def)

theorem failed_upload_state_witness:
  "upload_block (ascii_platform unreachable (parses [] JNull))
      (Some \<lparr>name = lit ''notes.txt'', data = []\<rparr>) loaded
     = (no_keys\<lparr>document_name := Some (lit ''notes.txt'')\<rparr>,
        [Error (lit ''Error processing document: Failed to extract text from document: TXT extraction failed: The text file appears to be empty.'')],
        Next)"
proof -
  have n: "document_name loaded = Some (lit ''a.txt'')"
    by (simp add: loaded_def)
  have d: "lit ''a.txt'' \<noteq> name \<lparr>name = lit ''notes.txt'', data = []\<rparr>"
    by (simp add: lit_def)
  show ?thesis
    using failed_upload_state [OF n d, of "ascii_platform unreachable (parses [] JNull)"]
      extract_empty_txt2 [of unreachable "parses [] JNull"]
    by (simp add: lit_def)
qed

text \<open>
  Name and content can stay after a failure. On a first run, uploading an
  empty \<open>a.txt\<close> leaves the name \<open>a.txt\<close> in the session after the extraction has failed;
  uploading an \<open>a.txt\<close> that holds \<open>hi\<close> while the remote service is out of reach leaves
  the name and the content \<open>hi\<close> after the summarization has failed.
\<close>

theorem failed_upload_keeps_name_and_content:
  "upload_block (ascii_platform unreachable (parses [] JNull))
      (Some \<lparr>name = lit ''a.txt'', data = []\<rparr>) (initialize no_keys)
     = (no_keys\<lparr>document_name := Some (lit ''a.txt'')\<rparr>,
        [Error (lit ''Error processing document: Failed to extract text from document: TXT extraction failed: The text file appears to be empty.'')],
        Next)
   \<and> upload_block (ascii_platform unreachable (parses [] JNull))
      (Some \<lparr>name = lit ''a.txt'', data = [104, 105]\<rparr>) (initialize no_keys)
     = (no_keys\<lparr>document_name := Some (lit ''a.txt''), document_content := Some (lit ''hi'')\<rparr>,
        [Error (lit ''Error processing document: Failed to generate summary: Connection error.'')],
        Next)"
proof -
  have s: "snd (generate_summary (ascii_platform unreachable (parses [] JNull)) d)
      = Inl (Exn Exception (lit ''Failed to generate summary: Connection error.''))" for d
    by (simp add: generate_summary_def Let_def ascii_platform_def unreachable_def bind_def
        reraise_def lit_def)
  have n: "lit ''a.txt'' \<noteq> []"
    by (simp add: lit_def)
  have m1: "lit ''Error processing document: '' @ lit ''Failed to extract text from document: TXT extraction failed: The text file appears to be empty.''
      = lit ''Error processing document: Failed to extract text from document: TXT extraction failed: The text file appears to be empty.''"
    by (simp add: lit_def)
  have m2: "lit ''Error processing document: '' @ lit ''Failed to generate summary: Connection error.''
      = lit ''Error processing document: Failed to generate summary: Connection error.''"
    by (simp add: lit_def)
  show ?thesis
    using n
    by (simp add: upload_block_def attr_def initialize_def or_default_def no_keys_def
        process_document_def Let_def clear_session_state_no_keys extract_empty_txt
        extract_hi_txt s m1 m2)
qed

subsection \<open>Answering a question\<close>

text \<open>
  C2, as the code has it. In the Get Answer block with a document and a history in the
  session: when the reply is not valid JSON, \<open>answer_question\<close> fails with a message that
  starts \<open>Failed to answer question: \<close>; when the reply is valid JSON, \<open>answer_question\<close>
  returns the parsed value whatever keys it has. When \<open>answer_question\<close> fails, and when
  the value it returns is an object without the key \<open>answer\<close> or without the key
  \<open>citation\<close>, the block shows the error and leaves the session, and so the history,
  unchanged.
\<close>

theorem malformed_answer_leaves_history:
  assumes "document_content s = Some document_text" and "qa_history s = Some h"
    and "user_question \<noteq> []"
  shows
    "(\<forall>content others e.
        chat_completions_create P (answer_request P user_question document_text (Some h))
          = Inr (Some content # others)
        \<and> json_loads P content = Inl e \<longrightarrow>
        snd (answer_question P user_question document_text (Some h))
          = Inl (Exn Exception (lit ''Failed to answer question: '' @ str_exn e)))
     \<and> (\<forall>content others v.
        chat_completions_create P (answer_request P user_question document_text (Some h))
          = Inr (Some content # others)
        \<and> json_loads P content = Inr v \<longrightarrow>
        snd (answer_question P user_question document_text (Some h)) = Inr v)
     \<and> (\<forall>e. snd (answer_question P user_question document_text (Some h)) = Inl e \<longrightarrow>
        get_answer_block P True user_question s
          = (s, [Error (lit ''Error generating answer: '' @ str_exn e)], Next))
     \<and> (\<forall>kvs. snd (answer_question P user_question document_text (Some h)) = Inr (JDict kvs)
        \<and> map_of kvs (lit ''answer'') = None \<longrightarrow>
        get_answer_block P True user_question s
          = (s, [Error (lit ''Error generating answer: '' @ [39] @ lit ''answer'' @ [39])], Next))
     \<and> (\<forall>kvs a. snd (answer_question P user_question document_text (Some h)) = Inr (JDict kvs)
        \<and> map_of kvs (lit ''answer'') = Some a \<and> map_of kvs (lit ''citation'') = None \<longrightarrow>
        get_answer_block P True user_question s
          = (s, [Error (lit ''Error generating answer: '' @ [39] @ lit ''citation'' @ [39])], Next))"
proof -
  have a: "snd (answer_question P user_question document_text (Some h))
      = reraise (lit ''Failed to answer question: '') (json_loads P content)"
    if "chat_completions_create P (answer_request P user_question document_text (Some h))
          = Inr (Some content # others)" for content others
    using that
    by (simp add: answer_question_def Let_def bind_def first_content_def index_def loads_def)
  have b: "get_answer_block P True user_question s
      = (case bind (snd (answer_question P user_question document_text (Some h))) (\<lambda>answer_data.
              bind (subscript answer_data (lit ''answer'')) (\<lambda>a.
              bind (subscript answer_data (lit ''citation'')) (\<lambda>c.
              Inr (s\<lparr>qa_history := Some (h @
                     [\<lparr>qa_question = user_question, qa_answer = a, qa_citation = c\<rparr>])\<rparr>)))) of
           Inl e \<Rightarrow> (s, [Error (lit ''Error generating answer: '' @ str_exn e)], Next)
         | Inr s' \<Rightarrow> (s', [], Rerun))"
    using assms by (simp add: get_answer_block_def attr_def bind_def)
  show ?thesis
    using a by (auto simp: b bind_def reraise_def subscript_def)
qed

theorem malformed_answer_leaves_history_witness:
  \<open>get_answer_block (ascii_platform (replies (lit ''{}'')) (parses (lit ''{}'') (JDict [])))
      True (lit ''What is X?'') loaded
     = (loaded, [Error (lit ''Error generating answer: '' @ [39] @ lit ''answer'' @ [39])], Next)
   \<and> get_answer_block (ascii_platform (replies (lit ''not json'')) (parses (lit ''{}'') (JDict [])))
      True (lit ''What is X?'') loaded
     = (loaded,
        [Error (lit ''Error generating answer: Failed to answer question: Expecting value: line 1 column 1 (char 0)'')],
        Next)\<close>
proof -
  let ?P = \<open>ascii_platform (replies (lit ''{}'')) (parses (lit ''{}'') (JDict []))\<close>
  let ?Q = \<open>ascii_platform (replies (lit ''not json'')) (parses (lit ''{}'') (JDict []))\<close>
  have c: "document_content loaded = Some (lit ''X is Y.'')"
    and h: "qa_history loaded = Some five_entries"
    by (simp_all add: loaded_def)
  have q: "lit ''What is X?'' \<noteq> []"
    by (simp add: lit_def)
  have p: \<open>chat_completions_create ?P req = Inr [Some (lit ''{}'')]
      \<and> json_loads ?P (lit ''{}'') = Inr (JDict [])\<close> for req
    by (simp add: ascii_platform_def replies_def parses_def)
  have p': \<open>chat_completions_create ?Q req = Inr [Some (lit ''not json'')]
      \<and> json_loads ?Q (lit ''not json'')
          = Inl (Exn LibraryError (lit ''Expecting value: line 1 column 1 (char 0)''))\<close> for req
    by (simp add: ascii_platform_def replies_def parses_def lit_def)
  have m: "lit ''Error generating answer: '' @ lit ''Failed to answer question: '' @ lit ''Expecting value: line 1 column 1 (char 0)''
      = lit ''Error generating answer: Failed to answer question: Expecting value: line 1 column 1 (char 0)''"
    by (simp add: lit_def)
  show ?thesis
    using p p' m malformed_answer_leaves_history [OF c h q, of ?P]
      malformed_answer_leaves_history [OF c h q, of ?Q]
    by simp
qed

text \<open>
  A reply without the keys \<open>answer\<close> and \<open>citation\<close> does not make \<open>answer_question\<close>
  fail: for the reply \<open>{}\<close> it returns the empty object.
\<close>

theorem answer_without_keys_returned:
  \<open>snd (answer_question (ascii_platform (replies (lit ''{}'')) (parses (lit ''{}'') (JDict [])))
          (lit ''What is X?'') (lit ''X is Y.'') (Some []))
     = Inr (JDict [])\<close>
  by (simp add: answer_question_def Let_def ascii_platform_def replies_def parses_def
      first_content_def index_def loads_def bind_def reraise_def)

end
